theory Spec2Isabelle
  imports
    Main
    "HOL-Library.Char_ord"
    "HOL-Library.List_Lexorder"
    "HOL-Library.Product_Lexorder"
    "HOL-Library.Multiset"
begin

section \<open>Definition generation for legislation terms: the data\<close>

text \<open>
  The script \<^verbatim>\<open>generate_definitions.py\<close> reads a CSV file into a pandas table,
  groups its rows by the two columns \<^verbatim>\<open>legislation_term\<close> and \<^verbatim>\<open>legislation_id\<close>,
  builds one prompt per group, asks a remote service for a definition and writes the
  answers to a CSV file.

  A cell of the table is either missing (pandas' NaN, which \<^verbatim>\<open>read_csv\<close> produces for
  an empty field) or present: an \<open>option\<close>, with \<open>None\<close> for NaN.  A \<open>char\<close> stands for
  one code point of a Python \<^verbatim>\<open>str\<close> in the range 0 to 255; strings compare
  lexicographically by code point, as Python's do.

  \<^verbatim>\<open>read_csv\<close> is called without \<^verbatim>\<open>dtype\<close> and with \<^verbatim>\<open>low_memory=False\<close>, so it
  gives each column one type for all its cells: a column whose fields all read as
  numbers holds numbers, any other column holds strings.  The two key columns keep the
  type pandas gave them, since grouping compares their values: \<open>'t\<close> is the type of the
  cells of \<^verbatim>\<open>legislation_term\<close> and \<open>'i\<close> that of \<^verbatim>\<open>legislation_id\<close> (\<open>string\<close> for a
  column of text, \<open>int\<close> for a column of integers, an ordered field for one of
  floats).  The other columns are only printed or tested for blanks; a cell of theirs
  is its text.
\<close>

record ('t, 'i) row =
  legislation_term :: "'t option"
  legislation_id :: "'i option"
  section_text :: "string option"
  url :: "string option"
  para_id :: "string option"
  paragraphs :: "string option"
  case_term :: "string option"

text \<open>One entry of the list \<^verbatim>\<open>results\<close> of \<^verbatim>\<open>main\<close>, a row of the output table.\<close>

record ('t, 'i) result_record =
  res_legislation_id :: 'i
  res_legislation_term :: 't
  legislation_term_definition :: string

text \<open>
  The exceptions the script can meet.  \<open>ApiError\<close> stands for any \<^verbatim>\<open>Exception\<close>
  raised inside \<^verbatim>\<open>call_claude_sonnet\<close> (network, authentication, quota, a malformed
  response); \<open>OtherError\<close> for any other exception of a library call.
\<close>

datatype error =
    FileNotFoundError
  | UnicodeDecodeError
  | KeyError string
  | ApiError string
  | OtherError string

datatype encoding = UTF8 | Latin1

text \<open>A content segment of the remote service's response: its type tag and its text.\<close>

record content_block =
  block_type :: string
  block_text :: string

text \<open>
  The remote service is not part of the program.  It is a parameter: from its own
  state and the prompt it returns the segments of the response, or raises, and moves
  to its next state.
\<close>

type_synonym 's client = "'s \<Rightarrow> string \<Rightarrow> (error + content_block list) \<times> 's"

text \<open>The keyword arguments of \<^verbatim>\<open>prompt_template.format\<close>.\<close>

record ('t, 'i) prompt_args =
  arg_legislation_term :: 't
  arg_legislation_id :: 'i
  arg_section_text :: string
  arg_case_law_paragraphs :: string
  arg_case_terms :: string

text \<open>
  The file \<^verbatim>\<open>prompt.txt\<close> is not part of the repository.  A loaded template is the
  function \<^verbatim>\<open>prompt_template.format\<close>: from the five keyword arguments to the prompt,
  or to the exception \<^verbatim>\<open>str.format\<close> raises on that template.
\<close>

type_synonym ('t, 'i) template = "('t, 'i) prompt_args \<Rightarrow> error + string"

section \<open>Strings\<close>

text \<open>\<^verbatim>\<open>sep.join(xs)\<close>\<close>

fun join :: "string \<Rightarrow> string list \<Rightarrow> string" where
  "join sep [] = []"
| "join sep [x] = x"
| "join sep (x # y # ys) = x @ sep @ join sep (y # ys)"

text \<open>
  \<^verbatim>\<open>str.isspace\<close> on one code point below 256: tab, line feed, vertical tab, form
  feed, carriage return, the four separators 0x1C to 0x1F, space, next line (0x85) and
  no-break space (0xA0).
\<close>

definition is_space :: "char \<Rightarrow> bool" where
  "is_space c = (of_char c \<in> set [9, 10, 11, 12, 13, 28, 29, 30, 31, 32, 133, 160 :: nat])"

text \<open>\<^verbatim>\<open>s.strip()\<close>\<close>

definition strip :: "string \<Rightarrow> string" where
  "strip s = rev (dropWhile is_space (rev (dropWhile is_space s)))"

text \<open>\<^verbatim>\<open>str(x)\<close> of a cell inside an f-string: a missing cell is the float NaN.\<close>

definition str_cell :: "string option \<Rightarrow> string" where
  "str_cell c = (case c of None \<Rightarrow> ''nan'' | Some s \<Rightarrow> s)"

text \<open>\<^verbatim>\<open>str(n)\<close> of a non-negative integer.\<close>

definition digit_char :: "nat \<Rightarrow> char" where
  "digit_char d = ''0123456789'' ! d"

fun str_nat :: "nat \<Rightarrow> string" where
  "str_nat n = (if n < 10 then [digit_char n] else str_nat (n div 10) @ [digit_char (n mod 10)])"

declare str_nat.simps [simp del]

section \<open>The pandas operations the script uses\<close>

text \<open>\<^verbatim>\<open>Series.dropna().tolist()\<close>: the present values, in row order.\<close>

fun dropna :: "string option list \<Rightarrow> string list" where
  "dropna [] = []"
| "dropna (None # cs) = dropna cs"
| "dropna (Some s # cs) = s # dropna cs"

text \<open>
  \<^verbatim>\<open>Series.unique()\<close>: the distinct values in order of first appearance.  \<open>seen\<close> is
  the table of values already returned.
\<close>

fun unique_from :: "'a list \<Rightarrow> 'a list \<Rightarrow> 'a list" where
  "unique_from seen [] = []"
| "unique_from seen (x # xs) =
     (if x \<in> set seen then unique_from seen xs else x # unique_from (x # seen) xs)"

definition unique :: "'a list \<Rightarrow> 'a list" where
  "unique xs = unique_from [] xs"

text \<open>
  The key of a row under \<^verbatim>\<open>df.groupby(['legislation_term', 'legislation_id'])\<close>.
  pandas drops a row from the grouping when one of its key cells is missing
  (\<^verbatim>\<open>dropna=True\<close>, the default): such a row has no key.
\<close>

type_synonym ('t, 'i) key = "'t \<times> 'i"

definition row_key :: "('t, 'i) row \<Rightarrow> ('t, 'i) key option" where
  "row_key r =
     (case legislation_term r of
        None \<Rightarrow> None
      | Some t \<Rightarrow> (case legislation_id r of None \<Rightarrow> None | Some i \<Rightarrow> Some (t, i)))"

text \<open>
  \<^verbatim>\<open>list(df.groupby([...]))\<close>: one pair of key and sub-table per distinct key, the keys
  in ascending order (\<^verbatim>\<open>sort=True\<close>, the default), each sub-table holding the rows of
  that key in the order of the table.  Keys compare as pairs, by the term first and by
  the identifier among equal terms, and each of the two by the order of its column's
  type: numbers by value, strings by code point.
\<close>

definition group_keys :: "('t::linorder, 'i::linorder) row list \<Rightarrow> ('t, 'i) key list" where
  "group_keys df = sort (remdups (List.map_filter row_key df))"

definition groupby ::
  "('t::linorder, 'i::linorder) row list \<Rightarrow> (('t, 'i) key \<times> ('t, 'i) row list) list"
where
  "groupby df = map (\<lambda>k. (k, filter (\<lambda>r. row_key r = Some k) df)) (group_keys df)"

section \<open>The prompt builder\<close>

text \<open>
  One entry of \<^verbatim>\<open>paragraphs_list\<close>:
  \<^verbatim>\<open>f"Case Law: {url} (Paragraph: {para_id})\n{paragraph}\n"\<close>.
  The table has the columns \<^verbatim>\<open>url\<close>, \<^verbatim>\<open>para_id\<close> and \<^verbatim>\<open>paragraphs\<close>, so
  \<^verbatim>\<open>row.get\<close> returns the cell and never its default.
\<close>

definition case_law_block :: "('t, 'i) row \<Rightarrow> string \<Rightarrow> string" where
  "case_law_block r paragraph =
     ''Case Law: '' @ str_cell (url r) @ '' (Paragraph: '' @ str_cell (para_id r) @ '')''
       @ [CHR 0x0A] @ paragraph @ [CHR 0x0A]"

text \<open>
  The loop of \<^verbatim>\<open>format_case_law_paragraphs\<close>: a row adds a block when
  \<^verbatim>\<open>pd.notna(paragraph) and paragraph.strip()\<close>.
\<close>

fun paragraphs_list :: "('t, 'i) row list \<Rightarrow> string list" where
  "paragraphs_list [] = []"
| "paragraphs_list (r # rs) =
     (case paragraphs r of
        None \<Rightarrow> paragraphs_list rs
      | Some paragraph \<Rightarrow>
          if strip paragraph \<noteq> [] then case_law_block r paragraph # paragraphs_list rs
          else paragraphs_list rs)"

text \<open>The separator \<^verbatim>\<open>"\n---\n\n"\<close>.\<close>

definition block_separator :: string where
  "block_separator = [CHR 0x0A] @ ''---'' @ [CHR 0x0A, CHR 0x0A]"

definition format_case_law_paragraphs :: "('t, 'i) row list \<Rightarrow> string" where
  "format_case_law_paragraphs group_df = join block_separator (paragraphs_list group_df)"

definition get_case_terms :: "('t, 'i) row list \<Rightarrow> string" where
  "get_case_terms group_df =
     (let case_terms = unique (dropna (map case_term group_df))
      in if case_terms \<noteq> [] then join '', '' case_terms else ''None identified'')"

text \<open>
  The first part of \<^verbatim>\<open>process_group\<close>: the section text is the first present value
  of the column, or the empty string, and the five values go to the template.
\<close>

definition build_prompt_args :: "'t \<Rightarrow> 'i \<Rightarrow> ('t, 'i) row list \<Rightarrow> ('t, 'i) prompt_args" where
  "build_prompt_args term ident group_df =
     \<lparr> arg_legislation_term = term,
       arg_legislation_id = ident,
       arg_section_text =
         (case dropna (map section_text group_df) of [] \<Rightarrow> [] | t # _ \<Rightarrow> t),
       arg_case_law_paragraphs = format_case_law_paragraphs group_df,
       arg_case_terms = get_case_terms group_df \<rparr>"

section \<open>The definition generator\<close>

text \<open>
  \<^verbatim>\<open>call_claude_sonnet\<close>: the texts of the segments of type \<^verbatim>\<open>"text"\<close>, concatenated in
  order and stripped.  An exception of the call is logged and raised again.
\<close>

definition response_text :: "content_block list \<Rightarrow> string" where
  "response_text content = concat (map block_text (filter (\<lambda>b. block_type b = ''text'') content))"

definition call_claude_sonnet :: "'s client \<Rightarrow> string \<Rightarrow> 's \<Rightarrow> (error + string) \<times> 's" where
  "call_claude_sonnet create prompt_text s =
     (case create s prompt_text of
        (Inl e, s') \<Rightarrow> (Inl e, s')
      | (Inr content, s') \<Rightarrow> (Inr (strip (response_text content)), s'))"

text \<open>
  \<^verbatim>\<open>process_group\<close>.  \<^verbatim>\<open>prompt_template.format\<close> runs outside the \<^verbatim>\<open>try\<close>: its
  exception leaves the function (\<open>Inl\<close>).  An exception of the call is caught and the
  function returns \<^verbatim>\<open>None\<close>.
\<close>

definition process_group ::
  "('t, 'i) template \<Rightarrow> 's client \<Rightarrow> 't \<Rightarrow> 'i \<Rightarrow> ('t, 'i) row list \<Rightarrow> 's
     \<Rightarrow> (error + string option) \<times> 's"
where
  "process_group prompt_template create term ident group_df s =
     (case prompt_template (build_prompt_args term ident group_df) of
        Inl e \<Rightarrow> (Inl e, s)
      | Inr prompt \<Rightarrow>
          (case call_claude_sonnet create prompt s of
             (Inl e, s') \<Rightarrow> (Inr None, s')
           | (Inr definition, s') \<Rightarrow> (Inr (Some definition), s')))"

section \<open>The run\<close>

text \<open>
  The state of \<^verbatim>\<open>main\<close>: the list \<^verbatim>\<open>results\<close>, the counter \<^verbatim>\<open>processed\<close>, the CSV
  files written so far (name and rows, oldest first) and the state of the remote
  service.  Logging and \<^verbatim>\<open>time.sleep\<close> change none of these and are left out; a write
  of a CSV file is taken to succeed.
\<close>

record ('t, 'i, 's) run =
  results :: "('t, 'i) result_record list"
  processed :: nat
  files :: "(string \<times> ('t, 'i) result_record list) list"
  service :: 's

definition placeholder :: string where
  "placeholder = ''Error: Could not generate definition''"

text \<open>
  \<^verbatim>\<open>definition if definition else "Error: Could not generate definition"\<close>: Python
  takes \<^verbatim>\<open>None\<close> and the empty string as false.
\<close>

definition definition_or_placeholder :: "string option \<Rightarrow> string" where
  "definition_or_placeholder d =
     (case d of None \<Rightarrow> placeholder | Some t \<Rightarrow> if t \<noteq> [] then t else placeholder)"

definition intermediate_file :: "nat \<Rightarrow> string" where
  "intermediate_file n = ''definitions_intermediate_'' @ str_nat n @ ''.csv''"

definition output_file :: string where
  "output_file = ''legislation_term_definitions.csv''"

text \<open>The body of the loop of \<^verbatim>\<open>main\<close> for one group.\<close>

definition main_step ::
  "('t, 'i) template \<Rightarrow> 's client \<Rightarrow> ('t, 'i) key \<times> ('t, 'i) row list \<Rightarrow> ('t, 'i, 's) run
     \<Rightarrow> error + ('t, 'i, 's) run"
where
  "main_step prompt_template create g st =
     (let n = processed st + 1 in
      case process_group prompt_template create (fst (fst g)) (snd (fst g)) (snd g) (service st) of
        (Inl e, s') \<Rightarrow> Inl e
      | (Inr d, s') \<Rightarrow>
          (let rs = results st @
                 [\<lparr> res_legislation_id = snd (fst g),
                    res_legislation_term = fst (fst g),
                    legislation_term_definition = definition_or_placeholder d \<rparr>]
           in Inr \<lparr> results = rs,
                    processed = n,
                    files = (if n mod 10 = 0 then files st @ [(intermediate_file n, rs)]
                             else files st),
                    service = s' \<rparr>))"

text \<open>
  The loop over a list of groups.  When an iteration raises, the run stops there; the
  files written before stay (second component).
\<close>

fun main_loop ::
  "('t, 'i) template \<Rightarrow> 's client \<Rightarrow> (('t, 'i) key \<times> ('t, 'i) row list) list
     \<Rightarrow> ('t, 'i, 's) run \<Rightarrow> (error + unit) \<times> ('t, 'i, 's) run"
where
  "main_loop prompt_template create [] st = (Inr (), st)"
| "main_loop prompt_template create (g # gs) st =
     (case main_step prompt_template create g st of
        Inl e \<Rightarrow> (Inl e, st)
      | Inr st' \<Rightarrow> main_loop prompt_template create gs st')"

text \<open>
  The input loader of \<^verbatim>\<open>main\<close>.  \<^verbatim>\<open>pd.read_csv\<close> on the fixed file name is a
  parameter: for an encoding it gives the table or the exception it raises.  The first
  component lists the encodings tried, in order.
\<close>

definition load_csv ::
  "(encoding \<Rightarrow> error + ('t, 'i) row list) \<Rightarrow> encoding list \<times> (error + ('t, 'i) row list)"
where
  "load_csv read_csv =
     (case read_csv UTF8 of
        Inl UnicodeDecodeError \<Rightarrow> ([UTF8, Latin1], read_csv Latin1)
      | Inl e \<Rightarrow> ([UTF8], Inl e)
      | Inr df \<Rightarrow> ([UTF8], Inr df))"

text \<open>
  \<^verbatim>\<open>main\<close>.  \<open>prompt_txt\<close> is \<open>None\<close> when \<^verbatim>\<open>prompt.txt\<close> does not exist.  The loop
  runs over \<^verbatim>\<open>groups_list[:1]\<close>.  After the output file is written the summary reads
  the column \<^verbatim>\<open>legislation_term_definition\<close> of the output table, which a table made
  from no results does not have: \<^verbatim>\<open>KeyError\<close>.
\<close>

definition initial_run :: "'s \<Rightarrow> ('t, 'i, 's) run" where
  "initial_run s = \<lparr> results = [], processed = 0, files = [], service = s \<rparr>"

definition main ::
  "('t::linorder, 'i::linorder) template option \<Rightarrow> (encoding \<Rightarrow> error + ('t, 'i) row list)
     \<Rightarrow> 's client \<Rightarrow> 's \<Rightarrow> (error + unit) \<times> ('t, 'i, 's) run"
where
  "main prompt_txt read_csv create s =
     (case prompt_txt of
        None \<Rightarrow> (Inl FileNotFoundError, initial_run s)
      | Some prompt_template \<Rightarrow>
          (case snd (load_csv read_csv) of
             Inl e \<Rightarrow> (Inl e, initial_run s)
           | Inr df \<Rightarrow>
               (let groups_list = groupby df in
                case main_loop prompt_template create (take 1 groups_list) (initial_run s) of
                  (Inl e, st) \<Rightarrow> (Inl e, st)
                | (Inr u, st) \<Rightarrow>
                    (let st' = st \<lparr> files := files st @ [(output_file, results st)] \<rparr>
                     in if results st = [] then (Inl (KeyError ''legislation_term_definition''), st')
                        else (Inr (), st')))))"

section \<open>Facts about the library operations\<close>


lemma dropna_append: "dropna (cs @ ds) = dropna cs @ dropna ds"
  by (induction cs rule: dropna.induct) auto

lemma dropna_Nil_iff: "dropna cs = [] \<longleftrightarrow> (\<forall>c\<in>set cs. c = None)"
  by (induction cs rule: dropna.induct) auto












section \<open>The prompt builder: case terms\<close>



lemma dropna_first_present:
  "\<forall>c\<in>set before. c = None \<Longrightarrow> dropna (before @ Some t # rest) = t # dropna rest"
  by (induction before) auto

lemma dropna_no_empty:
  "\<forall>c\<in>set cs. c \<noteq> Some [] \<Longrightarrow> filter (\<lambda>t. t \<noteq> []) (dropna cs) = dropna cs"
  by (induction cs rule: dropna.induct) auto


section \<open>The prompt builder: statutory text\<close>

text \<open>
  Claim C4.  The statutory text that \<^verbatim>\<open>process_group\<close> passes to the template is the
  empty string when every row of the group lacks a section text, and otherwise the
  section text of the first row that has one.  A cell that \<^verbatim>\<open>read_csv\<close> fills is
  never the empty string; on such a group this is the first value of the column that
  is neither missing nor empty.
\<close>

theorem section_text_first_present:
  "((\<forall>r\<in>set g. section_text r = None)
      \<longrightarrow> arg_section_text (build_prompt_args term ident g) = [])
   \<and> (g = before @ r # rest \<and> (\<forall>b\<in>set before. section_text b = None) \<and> section_text r = Some t
      \<longrightarrow> arg_section_text (build_prompt_args term ident g) = t)
   \<and> ((\<forall>r\<in>set g. section_text r \<noteq> Some [])
      \<longrightarrow> arg_section_text (build_prompt_args term ident g) =
          (case filter (\<lambda>t. t \<noteq> []) (dropna (map section_text g)) of [] \<Rightarrow> [] | t # _ \<Rightarrow> t))"
proof (intro conjI impI)
  assume "\<forall>r\<in>set g. section_text r = None"
  then have "dropna (map section_text g) = []"
    by (simp add: dropna_Nil_iff)
  then show "arg_section_text (build_prompt_args term ident g) = []"
    by (simp add: build_prompt_args_def)
next
  assume a: "g = before @ r # rest \<and> (\<forall>b\<in>set before. section_text b = None) \<and> section_text r = Some t"
  then have "dropna (map section_text g) = t # dropna (map section_text rest)"
    using dropna_first_present [of "map section_text before" t "map section_text rest"] by simp
  then show "arg_section_text (build_prompt_args term ident g) = t"
    by (simp add: build_prompt_args_def)
next
  assume "\<forall>r\<in>set g. section_text r \<noteq> Some []"
  then have "filter (\<lambda>t. t \<noteq> []) (dropna (map section_text g)) = dropna (map section_text g)"
    by (intro dropna_no_empty) auto
  then show "arg_section_text (build_prompt_args term ident g) =
          (case filter (\<lambda>t. t \<noteq> []) (dropna (map section_text g)) of [] \<Rightarrow> [] | t # _ \<Rightarrow> t)"
    by (simp add: build_prompt_args_def)
qed

theorem section_text_first_present_witness:
  "arg_section_text (build_prompt_args ''duty'' ''s1''
     [\<lparr> legislation_term = Some ''duty'', legislation_id = Some ''s1'', section_text = None,
        url = None, para_id = None, paragraphs = None, case_term = None \<rparr>,
      \<lparr> legislation_term = Some ''duty'', legislation_id = Some ''s1'', section_text = Some ''first'',
        url = None, para_id = None, paragraphs = None, case_term = None \<rparr>,
      \<lparr> legislation_term = Some ''duty'', legislation_id = Some ''s1'', section_text = Some ''second'',
        url = None, para_id = None, paragraphs = None, case_term = None \<rparr>]) = ''first''
   \<and> arg_section_text (build_prompt_args ''duty'' ''s1''
     [\<lparr> legislation_term = Some ''duty'', legislation_id = Some ''s1'', section_text = None,
        url = None, para_id = None, paragraphs = None, case_term = None \<rparr>]) = []"
  using
    section_text_first_present [of
      "[\<lparr> legislation_term = Some ''duty'', legislation_id = Some ''s1'', section_text = None,
          url = None, para_id = None, paragraphs = None, case_term = None \<rparr>,
        \<lparr> legislation_term = Some ''duty'', legislation_id = Some ''s1'', section_text = Some ''first'',
          url = None, para_id = None, paragraphs = None, case_term = None \<rparr>,
        \<lparr> legislation_term = Some ''duty'', legislation_id = Some ''s1'', section_text = Some ''second'',
          url = None, para_id = None, paragraphs = None, case_term = None \<rparr>]"
      "''duty''" "''s1''"
      "[\<lparr> legislation_term = Some ''duty'', legislation_id = Some ''s1'', section_text = None,
          url = None, para_id = None, paragraphs = None, case_term = None \<rparr>]"
      "\<lparr> legislation_term = Some ''duty'', legislation_id = Some ''s1'', section_text = Some ''first'',
          url = None, para_id = None, paragraphs = None, case_term = None \<rparr>"
      "[\<lparr> legislation_term = Some ''duty'', legislation_id = Some ''s1'', section_text = Some ''second'',
          url = None, para_id = None, paragraphs = None, case_term = None \<rparr>]"
      "''first''"]
    section_text_first_present [of
      "[\<lparr> legislation_term = Some ''duty'', legislation_id = Some ''s1'', section_text = None,
          url = None, para_id = None, paragraphs = None, case_term = None \<rparr>]"
      "''duty''" "''s1''"]
  by simp

section \<open>The prompt builder: case-law blocks\<close>



section \<open>Facts about the run\<close>

lemma process_group_format_error:
  "prompt_template (build_prompt_args term ident rows) = Inl e \<Longrightarrow>
   process_group prompt_template create term ident rows s = (Inl e, s)"
  by (simp add: process_group_def)

lemma process_group_api_error:
  "prompt_template (build_prompt_args term ident rows) = Inr prompt \<Longrightarrow>
   create s prompt = (Inl e, s') \<Longrightarrow>
   process_group prompt_template create term ident rows s = (Inr None, s')"
  by (simp add: process_group_def call_claude_sonnet_def)

lemma process_group_response:
  "prompt_template (build_prompt_args term ident rows) = Inr prompt \<Longrightarrow>
   create s prompt = (Inr content, s') \<Longrightarrow>
   process_group prompt_template create term ident rows s
     = (Inr (Some (strip (response_text content))), s')"
  by (simp add: process_group_def call_claude_sonnet_def)

text \<open>Unless the template raises, an iteration appends one record and counts one group.\<close>

lemma main_step_Inr:
  assumes "main_step prompt_template create g st = Inr st'"
  shows "\<exists>d. results st' = results st @
            [\<lparr> res_legislation_id = snd (fst g), res_legislation_term = fst (fst g),
               legislation_term_definition = d \<rparr>]
       \<and> processed st' = processed st + 1
       \<and> files st' = (if (processed st + 1) mod 10 = 0
                      then files st @ [(intermediate_file (processed st + 1), results st')]
                      else files st)"
  using assms
  by (auto simp: main_step_def Let_def split: prod.splits sum.splits)

lemma main_step_total:
  assumes "\<forall>a. \<exists>p. prompt_template a = Inr p"
  shows "\<exists>st'. main_step prompt_template create g st = Inr st'"
proof -
  obtain p where p: "prompt_template (build_prompt_args (fst (fst g)) (snd (fst g)) (snd g)) = Inr p"
    using assms by blast
  obtain r s' where c: "create (service st) p = (r, s')"
    by (cases "create (service st) p")
  show ?thesis
  proof (cases r)
    case (Inl e)
    with p c show ?thesis
      by (simp add: main_step_def process_group_api_error Let_def)
  next
    case (Inr content)
    with p c show ?thesis
      by (simp add: main_step_def process_group_response Let_def)
  qed
qed

lemma main_loop_total:
  assumes "\<forall>a. \<exists>p. prompt_template a = Inr p"
  shows "\<exists>st'. main_loop prompt_template create gs st = (Inr (), st')"
proof (induction gs arbitrary: st)
  case Nil
  show ?case by simp
next
  case (Cons g gs)
  obtain st1 where "main_step prompt_template create g st = Inr st1"
    using main_step_total [OF assms] by blast
  with Cons.IH [of st1] show ?case by simp
qed

text \<open>
  Whatever the outcome of the loop, its state holds one record per counted group, the
  records of the groups in order after those it started with.
\<close>

lemma main_loop_results:
  assumes "main_loop prompt_template create gs st = (out, st')"
  shows "\<exists>new. results st' = results st @ new
       \<and> processed st' = processed st + length new
       \<and> length new \<le> length gs
       \<and> map (\<lambda>r. (res_legislation_term r, res_legislation_id r)) new = map fst (take (length new) gs)
       \<and> (out = Inr () \<longrightarrow> length new = length gs)"
  using assms
proof (induction gs arbitrary: st)
  case Nil
  then show ?case by simp
next
  case (Cons g gs)
  show ?case
  proof (cases "main_step prompt_template create g st")
    case (Inl e)
    with Cons.prems have "st' = st" "out = Inl e" by simp_all
    then show ?thesis by simp
  next
    case (Inr st1)
    with Cons.prems have loop: "main_loop prompt_template create gs st1 = (out, st')"
      by simp
    from main_step_Inr [OF Inr] obtain d where
      r1: "results st1 = results st @
            [\<lparr> res_legislation_id = snd (fst g), res_legislation_term = fst (fst g),
               legislation_term_definition = d \<rparr>]"
      and p1: "processed st1 = processed st + 1"
      by blast
    from Cons.IH [OF loop] obtain new where
      n: "results st' = results st1 @ new" "processed st' = processed st1 + length new"
         "length new \<le> length gs"
         "map (\<lambda>r. (res_legislation_term r, res_legislation_id r)) new = map fst (take (length new) gs)"
         "out = Inr () \<longrightarrow> length new = length gs"
      by blast
    let ?new = "\<lparr> res_legislation_id = snd (fst g), res_legislation_term = fst (fst g),
               legislation_term_definition = d \<rparr> # new"
    have "results st' = results st @ ?new" using r1 n(1) by simp
    moreover have "processed st' = processed st + length ?new" using p1 n(2) by simp
    moreover have "length ?new \<le> length (g # gs)" using n(3) by simp
    moreover have "map (\<lambda>r. (res_legislation_term r, res_legislation_id r)) ?new
        = map fst (take (length ?new) (g # gs))" using n(4) by simp
    moreover have "out = Inr () \<longrightarrow> length ?new = length (g # gs)" using n(5) by simp
    ultimately show ?thesis by blast
  qed
qed

lemma length_groupby: "length (groupby df) = card (set (List.map_filter row_key df))"
  by (simp add: groupby_def group_keys_def length_remdups_card_conv)

lemma map_fst_groupby: "map fst (groupby df) = group_keys df"
  by (simp add: groupby_def comp_def)

section \<open>The run: a failing call\<close>

text \<open>
  Claim C1.  When the remote call for a group raises, \<^verbatim>\<open>process_group\<close> returns
  \<^verbatim>\<open>None\<close> and the iteration of \<^verbatim>\<open>main\<close> does not raise: it appends the record of
  the group with the definition \<^verbatim>\<open>Error: Could not generate definition\<close>, counts the
  group, and the loop goes on with the remaining groups from that state.  In \<^verbatim>\<open>main\<close>
  itself, where the loop runs over the first group only, a failing call for that group
  gives a completed run whose output file holds that one record.
\<close>

theorem api_failure_gives_placeholder:
  "(prompt_template (build_prompt_args tm ident rows) = Inr prompt
      \<and> create (service st) prompt = (Inl e, s')
    \<longrightarrow> process_group prompt_template create tm ident rows (service st) = (Inr None, s')
      \<and> (\<exists>st'. main_step prompt_template create ((tm, ident), rows) st = Inr st'
            \<and> results st' = results st @
                 [\<lparr> res_legislation_id = ident, res_legislation_term = tm,
                    legislation_term_definition = ''Error: Could not generate definition'' \<rparr>]
            \<and> processed st' = processed st + 1
            \<and> service st' = s'
            \<and> main_loop prompt_template create (((tm, ident), rows) # gs) st
                = main_loop prompt_template create gs st'))
   \<and> (snd (load_csv read_csv) = Inr df
      \<and> groupby df = ((tm, ident), rows) # gs
      \<and> prompt_template (build_prompt_args tm ident rows) = Inr prompt
      \<and> create s prompt = (Inl e, s')
    \<longrightarrow> main (Some prompt_template) read_csv create s =
          (Inr (),
           \<lparr> results =
               [\<lparr> res_legislation_id = ident, res_legislation_term = tm,
                  legislation_term_definition = ''Error: Could not generate definition'' \<rparr>],
             processed = 1,
             files =
               [(''legislation_term_definitions.csv'',
                 [\<lparr> res_legislation_id = ident, res_legislation_term = tm,
                    legislation_term_definition = ''Error: Could not generate definition'' \<rparr>])],
             service = s' \<rparr>))"
proof (intro conjI impI)
  assume a: "prompt_template (build_prompt_args tm ident rows) = Inr prompt
      \<and> create (service st) prompt = (Inl e, s')"
  then show pg: "process_group prompt_template create tm ident rows (service st) = (Inr None, s')"
    by (simp add: process_group_api_error)
  then obtain st' where step: "main_step prompt_template create ((tm, ident), rows) st = Inr st'"
    by (simp add: main_step_def Let_def)
  with pg have "results st' = results st @
                 [\<lparr> res_legislation_id = ident, res_legislation_term = tm,
                    legislation_term_definition = ''Error: Could not generate definition'' \<rparr>]"
      "processed st' = processed st + 1" "service st' = s'"
    by (auto simp: main_step_def Let_def definition_or_placeholder_def placeholder_def)
  with step show "\<exists>st'. main_step prompt_template create ((tm, ident), rows) st = Inr st'
            \<and> results st' = results st @
                 [\<lparr> res_legislation_id = ident, res_legislation_term = tm,
                    legislation_term_definition = ''Error: Could not generate definition'' \<rparr>]
            \<and> processed st' = processed st + 1
            \<and> service st' = s'
            \<and> main_loop prompt_template create (((tm, ident), rows) # gs) st
                = main_loop prompt_template create gs st'"
    by simp
next
  assume a: "snd (load_csv read_csv) = Inr df
      \<and> groupby df = ((tm, ident), rows) # gs
      \<and> prompt_template (build_prompt_args tm ident rows) = Inr prompt
      \<and> create s prompt = (Inl e, s')"
  then have "process_group prompt_template create tm ident rows s = (Inr None, s')"
    by (simp add: process_group_api_error)
  with a show "main (Some prompt_template) read_csv create s =
          (Inr (),
           \<lparr> results =
               [\<lparr> res_legislation_id = ident, res_legislation_term = tm,
                  legislation_term_definition = ''Error: Could not generate definition'' \<rparr>],
             processed = 1,
             files =
               [(''legislation_term_definitions.csv'',
                 [\<lparr> res_legislation_id = ident, res_legislation_term = tm,
                    legislation_term_definition = ''Error: Could not generate definition'' \<rparr>])],
             service = s' \<rparr>)"
    by (simp add: main_def initial_run_def main_step_def Let_def output_file_def
        definition_or_placeholder_def placeholder_def)
qed

theorem api_failure_gives_placeholder_witness:
  "main_loop (\<lambda>a. Inr (arg_legislation_term a))
     (\<lambda>n p. if p = ''duty'' then (Inl (ApiError ''overloaded''), Suc n)
             else (Inr [\<lparr> block_type = ''text'', block_text = ''a wrong'' \<rparr>], Suc n))
     [((''duty'', ''s1''),
       [\<lparr> legislation_term = Some ''duty'', legislation_id = Some ''s1'', section_text = None,
          url = None, para_id = None, paragraphs = None, case_term = None \<rparr>]),
      ((''tort'', ''s2''),
       [\<lparr> legislation_term = Some ''tort'', legislation_id = Some ''s2'', section_text = None,
          url = None, para_id = None, paragraphs = None, case_term = None \<rparr>])]
     \<lparr> results = [], processed = 0, files = [], service = 0 \<rparr>
   = (Inr (),
      \<lparr> results =
          [\<lparr> res_legislation_id = ''s1'', res_legislation_term = ''duty'',
             legislation_term_definition = ''Error: Could not generate definition'' \<rparr>,
           \<lparr> res_legislation_id = ''s2'', res_legislation_term = ''tort'',
             legislation_term_definition = ''a wrong'' \<rparr>],
        processed = 2, files = [], service = 2 \<rparr>)
   \<and> main (Some (\<lambda>a. Inr (arg_legislation_term a)))
     (\<lambda>enc. Inr
       [\<lparr> legislation_term = Some ''tort'', legislation_id = Some ''s2'', section_text = None,
          url = None, para_id = None, paragraphs = None, case_term = None \<rparr>,
        \<lparr> legislation_term = Some ''duty'', legislation_id = Some ''s1'', section_text = None,
          url = None, para_id = None, paragraphs = None, case_term = None \<rparr>])
     (\<lambda>n p. if p = ''duty'' then (Inl (ApiError ''overloaded''), Suc n)
             else (Inr [\<lparr> block_type = ''text'', block_text = ''a wrong'' \<rparr>], Suc n))
     0
   = (Inr (),
      \<lparr> results =
          [\<lparr> res_legislation_id = ''s1'', res_legislation_term = ''duty'',
             legislation_term_definition = ''Error: Could not generate definition'' \<rparr>],
        processed = 1,
        files =
          [(''legislation_term_definitions.csv'',
            [\<lparr> res_legislation_id = ''s1'', res_legislation_term = ''duty'',
               legislation_term_definition = ''Error: Could not generate definition'' \<rparr>])],
        service = 1 \<rparr>)"
  using api_failure_gives_placeholder [where
      prompt_template = "\<lambda>a. Inr (arg_legislation_term a)"
      and create = "\<lambda>n p. if p = ''duty'' then (Inl (ApiError ''overloaded''), Suc n)
             else (Inr [\<lparr> block_type = ''text'', block_text = ''a wrong'' \<rparr>], Suc n)"
      and tm = "''duty''" and ident = "''s1''"
      and rows = "[\<lparr> legislation_term = Some ''duty'', legislation_id = Some ''s1'', section_text = None,
          url = None, para_id = None, paragraphs = None, case_term = None \<rparr>]"
      and prompt = "''duty''"
      and st = "\<lparr> results = [], processed = 0, files = [], service = 0 \<rparr>"
      and e = "ApiError ''overloaded''" and s' = "Suc 0" and s = 0
      and gs = "[((''tort'', ''s2''),
       [\<lparr> legislation_term = Some ''tort'', legislation_id = Some ''s2'', section_text = None,
          url = None, para_id = None, paragraphs = None, case_term = None \<rparr>])]"
      and read_csv = "\<lambda>enc. Inr
       [\<lparr> legislation_term = Some ''tort'', legislation_id = Some ''s2'', section_text = None,
          url = None, para_id = None, paragraphs = None, case_term = None \<rparr>,
        \<lparr> legislation_term = Some ''duty'', legislation_id = Some ''s1'', section_text = None,
          url = None, para_id = None, paragraphs = None, case_term = None \<rparr>]"
      and df = "[\<lparr> legislation_term = Some ''tort'', legislation_id = Some ''s2'', section_text = None,
          url = None, para_id = None, paragraphs = None, case_term = None \<rparr>,
        \<lparr> legislation_term = Some ''duty'', legislation_id = Some ''s1'', section_text = None,
          url = None, para_id = None, paragraphs = None, case_term = None \<rparr>]"]
  by (simp add: build_prompt_args_def load_csv_def groupby_def group_keys_def List.map_filter_def
      row_key_def main_step_def process_group_def call_claude_sonnet_def response_text_def
      strip_def is_space_def definition_or_placeholder_def Let_def)

section \<open>The run: a response without text\<close>

text \<open>
  Claim C5, as the spec states it, fails on the code.  A response with no segment of
  type \<^verbatim>\<open>text\<close> is not an error for \<^verbatim>\<open>call_claude_sonnet\<close>, which returns the empty
  string; but \<^verbatim>\<open>main\<close> tests the definition for truth, the empty string is false in
  Python, and the record gets the placeholder, not the empty string.
\<close>

theorem empty_response_counterexample:
  "call_claude_sonnet (\<lambda>(s::unit) p. (Inr [\<lparr> block_type = ''tool_use'', block_text = ''x'' \<rparr>], s))
     ''duty'' () = (Inr [], ())
   \<and> map legislation_term_definition
       (results (snd (main (Some (\<lambda>a. Inr (arg_legislation_term a)))
          (\<lambda>enc. Inr
            [\<lparr> legislation_term = Some ''duty'', legislation_id = Some ''s1'', section_text = None,
               url = None, para_id = None, paragraphs = None, case_term = None \<rparr>])
          (\<lambda>(s::unit) p. (Inr [\<lparr> block_type = ''tool_use'', block_text = ''x'' \<rparr>], s))
          ())))
     = [''Error: Could not generate definition'']
   \<and> map legislation_term_definition
       (results (snd (main (Some (\<lambda>a. Inr (arg_legislation_term a)))
          (\<lambda>enc. Inr
            [\<lparr> legislation_term = Some ''duty'', legislation_id = Some ''s1'', section_text = None,
               url = None, para_id = None, paragraphs = None, case_term = None \<rparr>])
          (\<lambda>(s::unit) p. (Inr [\<lparr> block_type = ''tool_use'', block_text = ''x'' \<rparr>], s))
          ())))
     \<noteq> [[]]"
  by (simp add: main_def initial_run_def build_prompt_args_def load_csv_def groupby_def group_keys_def
      List.map_filter_def row_key_def main_step_def process_group_def call_claude_sonnet_def
      response_text_def strip_def definition_or_placeholder_def placeholder_def Let_def)

text \<open>
  Claim C5, amended.  A response with no segment of type \<^verbatim>\<open>text\<close> makes
  \<^verbatim>\<open>call_claude_sonnet\<close> return the empty string without raising and
  \<^verbatim>\<open>process_group\<close> return it; the iteration of \<^verbatim>\<open>main\<close> then appends the record of
  the group with the definition \<^verbatim>\<open>Error: Could not generate definition\<close>, as it does
  for a failed call.
\<close>

theorem empty_response_gives_placeholder:
  "(prompt_template (build_prompt_args tm ident rows) = Inr prompt
      \<and> create (service st) prompt = (Inr content, s')
      \<and> filter (\<lambda>b. block_type b = ''text'') content = []
    \<longrightarrow> call_claude_sonnet create prompt (service st) = (Inr [], s')
      \<and> process_group prompt_template create tm ident rows (service st) = (Inr (Some []), s')
      \<and> (\<exists>st'. main_step prompt_template create ((tm, ident), rows) st = Inr st'
            \<and> results st' = results st @
                 [\<lparr> res_legislation_id = ident, res_legislation_term = tm,
                    legislation_term_definition = ''Error: Could not generate definition'' \<rparr>]
            \<and> processed st' = processed st + 1
            \<and> service st' = s'))"
proof (intro impI)
  assume a: "prompt_template (build_prompt_args tm ident rows) = Inr prompt
      \<and> create (service st) prompt = (Inr content, s')
      \<and> filter (\<lambda>b. block_type b = ''text'') content = []"
  then have empty: "strip (response_text content) = []"
    by (simp add: response_text_def strip_def)
  from a have call: "call_claude_sonnet create prompt (service st) = (Inr [], s')"
    by (simp add: call_claude_sonnet_def empty)
  from a have pg: "process_group prompt_template create tm ident rows (service st) = (Inr (Some []), s')"
    by (simp add: process_group_response empty)
  then have "\<exists>st'. main_step prompt_template create ((tm, ident), rows) st = Inr st'
            \<and> results st' = results st @
                 [\<lparr> res_legislation_id = ident, res_legislation_term = tm,
                    legislation_term_definition = ''Error: Could not generate definition'' \<rparr>]
            \<and> processed st' = processed st + 1
            \<and> service st' = s'"
    by (simp add: main_step_def Let_def definition_or_placeholder_def placeholder_def)
  with call pg show "call_claude_sonnet create prompt (service st) = (Inr [], s')
      \<and> process_group prompt_template create tm ident rows (service st) = (Inr (Some []), s')
      \<and> (\<exists>st'. main_step prompt_template create ((tm, ident), rows) st = Inr st'
            \<and> results st' = results st @
                 [\<lparr> res_legislation_id = ident, res_legislation_term = tm,
                    legislation_term_definition = ''Error: Could not generate definition'' \<rparr>]
            \<and> processed st' = processed st + 1
            \<and> service st' = s')"
    by blast
qed

theorem empty_response_gives_placeholder_witness:
  "call_claude_sonnet (\<lambda>(s::unit) p. (Inr [\<lparr> block_type = ''tool_use'', block_text = ''x'' \<rparr>], s))
     ''duty'' () = (Inr [], ())
   \<and> main_step (\<lambda>a. Inr (arg_legislation_term a))
       (\<lambda>(s::unit) p. (Inr [\<lparr> block_type = ''tool_use'', block_text = ''x'' \<rparr>], s))
       ((''duty'', ''s1''),
        [\<lparr> legislation_term = Some ''duty'', legislation_id = Some ''s1'', section_text = None,
           url = None, para_id = None, paragraphs = None, case_term = None \<rparr>])
       \<lparr> results = [], processed = 0, files = [], service = () \<rparr>
     = Inr \<lparr> results =
               [\<lparr> res_legislation_id = ''s1'', res_legislation_term = ''duty'',
                  legislation_term_definition = ''Error: Could not generate definition'' \<rparr>],
             processed = 1, files = [], service = () \<rparr>"
  using empty_response_gives_placeholder [where
      prompt_template = "\<lambda>a. Inr (arg_legislation_term a)"
      and create = "\<lambda>(s::unit) p. (Inr [\<lparr> block_type = ''tool_use'', block_text = ''x'' \<rparr>], s)"
      and tm = "''duty''" and ident = "''s1''"
      and rows = "[\<lparr> legislation_term = Some ''duty'', legislation_id = Some ''s1'', section_text = None,
           url = None, para_id = None, paragraphs = None, case_term = None \<rparr>]"
      and prompt = "''duty''"
      and st = "\<lparr> results = [], processed = 0, files = [], service = () \<rparr>"
      and content = "[\<lparr> block_type = ''tool_use'', block_text = ''x'' \<rparr>]" and s' = "()"]
  by (simp add: build_prompt_args_def main_step_def process_group_def call_claude_sonnet_def
      response_text_def strip_def definition_or_placeholder_def placeholder_def Let_def)

section \<open>The run: one record per group\<close>

lemma first_group_no_checkpoint:
  assumes "main_loop prompt_template create (take 1 gs) (initial_run s) = (out, st)"
  shows "files st = []"
proof (cases gs)
  case Nil
  with assms show ?thesis by (auto simp: initial_run_def)
next
  case (Cons g rest)
  show ?thesis
  proof (cases "main_step prompt_template create g (initial_run s)")
    case (Inl e)
    with assms Cons show ?thesis by (auto simp: initial_run_def)
  next
    case (Inr st1)
    with assms Cons have "st = st1" by simp
    with main_step_Inr [OF Inr] show ?thesis by (simp add: initial_run_def)
  qed
qed

text \<open>
  Claim C2.  When the template formats every group without raising, the loop of
  \<^verbatim>\<open>main\<close> over any list of groups completes and appends exactly one record per
  group, in the order of the groups, whether the call succeeded or failed.  \<^verbatim>\<open>main\<close>
  runs the loop over the first group of the group list only.  Whenever a run on a
  table that was read writes a file, that file is the output file and holds exactly the
  records of the final state: one when the table has a group and none when it has not
  (the smaller of 1 and the number of distinct keys), carrying the key of the first
  group, and the counter of processed groups equals their number.  With a template that
  never raises the output file is always written.
\<close>

theorem one_record_per_processed_group:
  "((\<forall>a. \<exists>p. prompt_template a = Inr p)
    \<longrightarrow> (\<exists>st'. main_loop prompt_template create gs st = (Inr (), st')
          \<and> length (results st') = length (results st) + length gs
          \<and> processed st' = processed st + length gs
          \<and> map (\<lambda>r. (res_legislation_term r, res_legislation_id r))
                (drop (length (results st)) (results st')) = map fst gs))
   \<and> (snd (load_csv read_csv) = Inr df
      \<and> main (Some prompt_template) read_csv create s = (out, final)
      \<and> files final \<noteq> []
    \<longrightarrow> files final = [(''legislation_term_definitions.csv'', results final)]
      \<and> length (results final) = min 1 (card (set (List.map_filter row_key df)))
      \<and> processed final = length (results final)
      \<and> map (\<lambda>r. (res_legislation_term r, res_legislation_id r)) (results final)
          = map fst (take 1 (groupby df)))
   \<and> ((\<forall>a. \<exists>p. prompt_template a = Inr p)
      \<and> snd (load_csv read_csv) = Inr df
    \<longrightarrow> files (snd (main (Some prompt_template) read_csv create s)) \<noteq> [])"
proof (intro conjI impI)
  assume total: "\<forall>a. \<exists>p. prompt_template a = Inr p"
  obtain st' where loop: "main_loop prompt_template create gs st = (Inr (), st')"
    using main_loop_total [OF total] by blast
  from main_loop_results [OF loop] obtain new where
    "results st' = results st @ new" "processed st' = processed st + length new"
    "map (\<lambda>r. (res_legislation_term r, res_legislation_id r)) new = map fst (take (length new) gs)"
    "length new = length gs"
    by blast
  with loop show "\<exists>st'. main_loop prompt_template create gs st = (Inr (), st')
          \<and> length (results st') = length (results st) + length gs
          \<and> processed st' = processed st + length gs
          \<and> map (\<lambda>r. (res_legislation_term r, res_legislation_id r))
                (drop (length (results st)) (results st')) = map fst gs"
    by simp
next
  assume a: "snd (load_csv read_csv) = Inr df
      \<and> main (Some prompt_template) read_csv create s = (out, final)
      \<and> files final \<noteq> []"
  obtain o1 st1 where loop:
    "main_loop prompt_template create (take 1 (groupby df)) (initial_run s) = (o1, st1)"
    by (cases "main_loop prompt_template create (take 1 (groupby df)) (initial_run s)")
  have nofile: "files st1 = []"
    by (rule first_group_no_checkpoint [OF loop])
  have completed: "o1 = Inr ()"
  proof (cases o1)
    case (Inl e)
    with a loop nofile show ?thesis by (auto simp: main_def Let_def)
  next
    case (Inr u)
    then show ?thesis by simp
  qed
  from main_loop_results [OF loop] completed obtain new where new:
    "results st1 = new"
    "processed st1 = length new"
    "map (\<lambda>r. (res_legislation_term r, res_legislation_id r)) new
       = map fst (take (length new) (take 1 (groupby df)))"
    "length new = length (take 1 (groupby df))"
    unfolding initial_run_def by auto
  from a loop completed have final: "final = st1 \<lparr> files := files st1 @ [(output_file, results st1)] \<rparr>"
    by (auto simp: main_def Let_def split: if_splits)
  have res: "results final = new" "processed final = length new"
    using final new(1,2) by (simp_all add: initial_run_def)
  show "files final = [(''legislation_term_definitions.csv'', results final)]"
    using final nofile by (simp add: output_file_def)
  show "length (results final) = min 1 (card (set (List.map_filter row_key df)))"
    using res new(4) by (simp add: length_groupby min.commute)
  show "processed final = length (results final)"
    using res by simp
  show "map (\<lambda>r. (res_legislation_term r, res_legislation_id r)) (results final)
          = map fst (take 1 (groupby df))"
  proof -
    have "take (length new) (take 1 (groupby df)) = take 1 (groupby df)"
      unfolding new(4) by (rule take_all) (rule order_refl)
    with new(3) res(1) show ?thesis by simp
  qed
next
  assume a: "(\<forall>a. \<exists>p. prompt_template a = Inr p) \<and> snd (load_csv read_csv) = Inr df"
  then obtain st' where
    "main_loop prompt_template create (take 1 (groupby df)) (initial_run s) = (Inr (), st')"
    using main_loop_total [of prompt_template] by blast
  with a show "files (snd (main (Some prompt_template) read_csv create s)) \<noteq> []"
    by (simp add: main_def Let_def)
qed

theorem one_record_per_processed_group_witness:
  "main (Some (\<lambda>a. Inr (arg_legislation_term a)))
     (\<lambda>enc. Inr
       [\<lparr> legislation_term = Some ''tort'', legislation_id = Some ''s2'', section_text = None,
          url = None, para_id = None, paragraphs = None, case_term = None \<rparr>,
        \<lparr> legislation_term = Some ''duty'', legislation_id = Some ''s1'', section_text = None,
          url = None, para_id = None, paragraphs = None, case_term = None \<rparr>,
        \<lparr> legislation_term = Some ''tort'', legislation_id = Some ''s2'', section_text = None,
          url = None, para_id = None, paragraphs = None, case_term = Some ''harm'' \<rparr>])
     (\<lambda>(s::unit) p. (Inr [\<lparr> block_type = ''text'', block_text = ''meaning of '' @ p \<rparr>], s))
     ()
   = (Inr (),
      \<lparr> results =
          [\<lparr> res_legislation_id = ''s1'', res_legislation_term = ''duty'',
             legislation_term_definition = ''meaning of duty'' \<rparr>],
        processed = 1,
        files =
          [(''legislation_term_definitions.csv'',
            [\<lparr> res_legislation_id = ''s1'', res_legislation_term = ''duty'',
               legislation_term_definition = ''meaning of duty'' \<rparr>])],
        service = () \<rparr>)
   \<and> length (groupby
       [\<lparr> legislation_term = Some ''tort'', legislation_id = Some ''s2'', section_text = None,
          url = None, para_id = None, paragraphs = None, case_term = None \<rparr>,
        \<lparr> legislation_term = Some ''duty'', legislation_id = Some ''s1'', section_text = None,
          url = None, para_id = None, paragraphs = None, case_term = None \<rparr>,
        \<lparr> legislation_term = Some ''tort'', legislation_id = Some ''s2'', section_text = None,
          url = None, para_id = None, paragraphs = None, case_term = Some ''harm'' \<rparr>]) = 2"
  using one_record_per_processed_group [where
      prompt_template = "\<lambda>a. Inr (arg_legislation_term a)"
      and create = "\<lambda>(s::unit) p. (Inr [\<lparr> block_type = ''text'', block_text = ''meaning of '' @ p \<rparr>], s)"
      and gs = "[]" and st = "\<lparr> results = [], processed = 0, files = [], service = () \<rparr>"
      and read_csv = "\<lambda>enc. Inr
       [\<lparr> legislation_term = Some ''tort'', legislation_id = Some ''s2'', section_text = None,
          url = None, para_id = None, paragraphs = None, case_term = None \<rparr>,
        \<lparr> legislation_term = Some ''duty'', legislation_id = Some ''s1'', section_text = None,
          url = None, para_id = None, paragraphs = None, case_term = None \<rparr>,
        \<lparr> legislation_term = Some ''tort'', legislation_id = Some ''s2'', section_text = None,
          url = None, para_id = None, paragraphs = None, case_term = Some ''harm'' \<rparr>]"
      and df = "[\<lparr> legislation_term = Some ''tort'', legislation_id = Some ''s2'', section_text = None,
          url = None, para_id = None, paragraphs = None, case_term = None \<rparr>,
        \<lparr> legislation_term = Some ''duty'', legislation_id = Some ''s1'', section_text = None,
          url = None, para_id = None, paragraphs = None, case_term = None \<rparr>,
        \<lparr> legislation_term = Some ''tort'', legislation_id = Some ''s2'', section_text = None,
          url = None, para_id = None, paragraphs = None, case_term = Some ''harm'' \<rparr>]"
      and s = "()" and out = "Inr ()"
      and final = "\<lparr> results =
          [\<lparr> res_legislation_id = ''s1'', res_legislation_term = ''duty'',
             legislation_term_definition = ''meaning of duty'' \<rparr>],
        processed = 1,
        files =
          [(''legislation_term_definitions.csv'',
            [\<lparr> res_legislation_id = ''s1'', res_legislation_term = ''duty'',
               legislation_term_definition = ''meaning of duty'' \<rparr>])],
        service = () \<rparr>"]
  by (simp add: main_def initial_run_def output_file_def build_prompt_args_def load_csv_def
      groupby_def group_keys_def List.map_filter_def row_key_def main_step_def process_group_def
      call_claude_sonnet_def response_text_def strip_def is_space_def
      definition_or_placeholder_def Let_def)

section \<open>The run: checkpoint files\<close>

text \<open>
  The checkpoint files of a state with \<open>p\<close> processed groups and the records \<open>rs\<close>:
  one for each multiple of ten up to \<open>p\<close>, holding the first \<open>n\<close> records.
\<close>

lemma checkpoints_prefix:
  assumes "p \<le> length rs"
  shows "map (\<lambda>n. (intermediate_file n, take n (rs @ new))) (filter (\<lambda>n. n mod 10 = 0) [1..<Suc p])
       = map (\<lambda>n. (intermediate_file n, take n rs)) (filter (\<lambda>n. n mod 10 = 0) [1..<Suc p])"
  using assms by (intro map_cong) auto

lemma checkpoints_snoc:
  assumes "length rs = p"
  shows "map (\<lambda>n. (intermediate_file n, take n (rs @ [r]))) (filter (\<lambda>n. n mod 10 = 0) [1..<Suc (Suc p)])
       = map (\<lambda>n. (intermediate_file n, take n rs)) (filter (\<lambda>n. n mod 10 = 0) [1..<Suc p])
         @ (if Suc p mod 10 = 0 then [(intermediate_file (Suc p), rs @ [r])] else [])"
proof -
  have "[1..<Suc (Suc p)] = [1..<Suc p] @ [Suc p]"
    by simp
  then have "map (\<lambda>n. (intermediate_file n, take n (rs @ [r]))) (filter (\<lambda>n. n mod 10 = 0) [1..<Suc (Suc p)])
      = map (\<lambda>n. (intermediate_file n, take n (rs @ [r]))) (filter (\<lambda>n. n mod 10 = 0) [1..<Suc p])
        @ map (\<lambda>n. (intermediate_file n, take n (rs @ [r]))) (filter (\<lambda>n. n mod 10 = 0) [Suc p])"
    by (simp only: filter_append map_append)
  also have "map (\<lambda>n. (intermediate_file n, take n (rs @ [r]))) (filter (\<lambda>n. n mod 10 = 0) [1..<Suc p])
      = map (\<lambda>n. (intermediate_file n, take n rs)) (filter (\<lambda>n. n mod 10 = 0) [1..<Suc p])"
    using assms by (intro checkpoints_prefix) simp
  also have "map (\<lambda>n. (intermediate_file n, take n (rs @ [r]))) (filter (\<lambda>n. n mod 10 = 0) [Suc p])
      = (if Suc p mod 10 = 0 then [(intermediate_file (Suc p), rs @ [r])] else [])"
    using assms by simp
  finally show ?thesis .
qed

lemma main_loop_files:
  assumes "main_loop prompt_template create gs st = (out, st')"
    and "length (results st) = processed st"
    and "files st = map (\<lambda>n. (intermediate_file n, take n (results st)))
                      (filter (\<lambda>n. n mod 10 = 0) [1..<Suc (processed st)])"
  shows "length (results st') = processed st'
       \<and> files st' = map (\<lambda>n. (intermediate_file n, take n (results st')))
                        (filter (\<lambda>n. n mod 10 = 0) [1..<Suc (processed st')])"
  using assms
proof (induction gs arbitrary: st)
  case Nil
  then show ?case by simp
next
  case (Cons g gs)
  show ?case
  proof (cases "main_step prompt_template create g st")
    case (Inl e)
    with Cons.prems show ?thesis by simp
  next
    case (Inr st1)
    with Cons.prems have loop: "main_loop prompt_template create gs st1 = (out, st')"
      by simp
    from main_step_Inr [OF Inr] obtain d where
      r1: "results st1 = results st @
            [\<lparr> res_legislation_id = snd (fst g), res_legislation_term = fst (fst g),
               legislation_term_definition = d \<rparr>]"
      and p1: "processed st1 = Suc (processed st)"
      and f1: "files st1 = (if Suc (processed st) mod 10 = 0
                      then files st @ [(intermediate_file (Suc (processed st)), results st1)]
                      else files st)"
      by auto
    have len: "length (results st1) = processed st1"
      using r1 p1 Cons.prems(2) by simp
    have fs: "files st1 = map (\<lambda>n. (intermediate_file n, take n (results st1)))
                      (filter (\<lambda>n. n mod 10 = 0) [1..<Suc (processed st1)])"
      unfolding p1 r1 checkpoints_snoc [OF Cons.prems(2)]
      using f1 r1 Cons.prems(3) by simp
    show ?thesis
      by (rule Cons.IH [OF loop len fs])
  qed
qed

text \<open>
  Claim C8.  The loop of \<^verbatim>\<open>main\<close>, started from the empty state and run over any list
  of groups, has written, whether it completed or an iteration raised, exactly one
  checkpoint file for each multiple \<open>n\<close> of ten up to the number of processed groups,
  in that order and under the name \<^verbatim>\<open>definitions_intermediate_n.csv\<close>; the file holds
  the \<open>n\<close> records accumulated when \<open>n\<close> groups were processed, and no other file is
  written in the loop.  After ten groups there is one checkpoint file, of ten rows;
  after nine there is none.  \<^verbatim>\<open>main\<close> itself runs the loop over one group at most, so
  it never reaches a checkpoint: the only file it writes is the output file.
\<close>

theorem checkpoint_every_ten:
  "(main_loop prompt_template create gs (initial_run s) = (out, st')
    \<longrightarrow> length (results st') = processed st'
      \<and> files st' = map (\<lambda>n. (intermediate_file n, take n (results st')))
                       (filter (\<lambda>n. n mod 10 = 0) [1..<Suc (processed st')])
      \<and> (\<forall>f\<in>set (files st'). \<exists>n. 0 < n \<and> n \<le> processed st' \<and> n mod 10 = 0
            \<and> f = (intermediate_file n, take n (results st')) \<and> length (snd f) = n))
   \<and> (main prompt_txt read_csv create s = (out, final)
    \<longrightarrow> files final = [] \<or> files final = [(''legislation_term_definitions.csv'', results final)])"
proof (intro conjI impI)
  assume loop: "main_loop prompt_template create gs (initial_run s) = (out, st')"
  have inv: "length (results st') = processed st'
       \<and> files st' = map (\<lambda>n. (intermediate_file n, take n (results st')))
                        (filter (\<lambda>n. n mod 10 = 0) [1..<Suc (processed st')])"
    by (rule main_loop_files [OF loop]) (simp_all add: initial_run_def)
  then show "length (results st') = processed st'"
    and fs: "files st' = map (\<lambda>n. (intermediate_file n, take n (results st')))
                       (filter (\<lambda>n. n mod 10 = 0) [1..<Suc (processed st')])"
    by simp_all
  show "\<forall>f\<in>set (files st'). \<exists>n. 0 < n \<and> n \<le> processed st' \<and> n mod 10 = 0
            \<and> f = (intermediate_file n, take n (results st')) \<and> length (snd f) = n"
  proof
    fix f assume "f \<in> set (files st')"
    then have "f \<in> (\<lambda>n. (intermediate_file n, take n (results st')))
                 ` {n \<in> set [1..<Suc (processed st')]. n mod 10 = 0}"
      unfolding fs by simp
    then obtain n where n: "n \<in> {n \<in> set [1..<Suc (processed st')]. n mod 10 = 0}"
      and f: "f = (intermediate_file n, take n (results st'))"
      by (rule imageE)
    from n have "0 < n" "n \<le> processed st'" "n mod 10 = 0"
      by (simp_all del: upt_Suc)
    with inv f show "\<exists>n. 0 < n \<and> n \<le> processed st' \<and> n mod 10 = 0
            \<and> f = (intermediate_file n, take n (results st')) \<and> length (snd f) = n"
      by (intro exI [of _ n]) auto
  qed
next
  assume m: "main prompt_txt read_csv create s = (out, final)"
  show "files final = [] \<or> files final = [(''legislation_term_definitions.csv'', results final)]"
  proof (cases prompt_txt)
    case None
    with m show ?thesis by (auto simp: main_def initial_run_def)
  next
    case (Some prompt_template)
    show ?thesis
    proof (cases "snd (load_csv read_csv)")
      case (Inl e)
      with m Some show ?thesis by (auto simp: main_def initial_run_def)
    next
      case (Inr df)
      obtain o1 st1 where loop:
        "main_loop prompt_template create (take 1 (groupby df)) (initial_run s) = (o1, st1)"
        by (cases "main_loop prompt_template create (take 1 (groupby df)) (initial_run s)")
      have "files st1 = []"
      proof (cases "groupby df")
        case Nil
        with loop show ?thesis by (auto simp: initial_run_def)
      next
        case (Cons g gs)
        show ?thesis
        proof (cases "main_step prompt_template create g (initial_run s)")
          case (Inl e)
          with loop Cons show ?thesis by (auto simp: initial_run_def)
        next
          case (Inr st2)
          with loop Cons have "st1 = st2" by simp
          with main_step_Inr [OF Inr] show ?thesis by (simp add: initial_run_def)
        qed
      qed
      with m Some Inr loop show ?thesis
        by (auto simp: main_def Let_def output_file_def split: sum.splits if_splits)
    qed
  qed
qed

theorem checkpoint_every_ten_witness:
  "fst (main_loop (\<lambda>a. Inr (arg_legislation_id a))
         (\<lambda>(s::unit) p. (Inr [\<lparr> block_type = ''text'', block_text = p \<rparr>], s))
         (map (\<lambda>i. ((''duty'', i),
                 [\<lparr> legislation_term = Some ''duty'', legislation_id = Some i, section_text = None,
                    url = None, para_id = None, paragraphs = None, case_term = None \<rparr>]))
            [''a'', ''b'', ''c'', ''d'', ''e'', ''f'', ''g'', ''h'', ''i'', ''j''])
         (initial_run ())) = Inr ()
   \<and> length (results (snd (main_loop (\<lambda>a. Inr (arg_legislation_id a))
         (\<lambda>(s::unit) p. (Inr [\<lparr> block_type = ''text'', block_text = p \<rparr>], s))
         (map (\<lambda>i. ((''duty'', i),
                 [\<lparr> legislation_term = Some ''duty'', legislation_id = Some i, section_text = None,
                    url = None, para_id = None, paragraphs = None, case_term = None \<rparr>]))
            [''a'', ''b'', ''c'', ''d'', ''e'', ''f'', ''g'', ''h'', ''i'', ''j''])
         (initial_run ())))) = 10
   \<and> files (snd (main_loop (\<lambda>a. Inr (arg_legislation_id a))
         (\<lambda>(s::unit) p. (Inr [\<lparr> block_type = ''text'', block_text = p \<rparr>], s))
         (map (\<lambda>i. ((''duty'', i),
                 [\<lparr> legislation_term = Some ''duty'', legislation_id = Some i, section_text = None,
                    url = None, para_id = None, paragraphs = None, case_term = None \<rparr>]))
            [''a'', ''b'', ''c'', ''d'', ''e'', ''f'', ''g'', ''h'', ''i'', ''j''])
         (initial_run ())))
     = [(''definitions_intermediate_10.csv'',
         results (snd (main_loop (\<lambda>a. Inr (arg_legislation_id a))
           (\<lambda>(s::unit) p. (Inr [\<lparr> block_type = ''text'', block_text = p \<rparr>], s))
           (map (\<lambda>i. ((''duty'', i),
                   [\<lparr> legislation_term = Some ''duty'', legislation_id = Some i, section_text = None,
                      url = None, para_id = None, paragraphs = None, case_term = None \<rparr>]))
              [''a'', ''b'', ''c'', ''d'', ''e'', ''f'', ''g'', ''h'', ''i'', ''j''])
           (initial_run ()))))]
   \<and> files (snd (main_loop (\<lambda>a. Inr (arg_legislation_id a))
         (\<lambda>(s::unit) p. (Inr [\<lparr> block_type = ''text'', block_text = p \<rparr>], s))
         (map (\<lambda>i. ((''duty'', i),
                 [\<lparr> legislation_term = Some ''duty'', legislation_id = Some i, section_text = None,
                    url = None, para_id = None, paragraphs = None, case_term = None \<rparr>]))
            [''a'', ''b'', ''c'', ''d'', ''e'', ''f'', ''g'', ''h'', ''i''])
         (initial_run ()))) = []"
  using checkpoint_every_ten [where
      prompt_template = "\<lambda>a. Inr (arg_legislation_id a)"
      and create = "\<lambda>(s::unit) p. (Inr [\<lparr> block_type = ''text'', block_text = p \<rparr>], s)"
      and gs = "map (\<lambda>i. ((''duty'', i),
                 [\<lparr> legislation_term = Some ''duty'', legislation_id = Some i, section_text = None,
                    url = None, para_id = None, paragraphs = None, case_term = None \<rparr>]))
            [''a'', ''b'', ''c'', ''d'', ''e'', ''f'', ''g'', ''h'', ''i'', ''j'']"
      and s = "()" and out = "Inr ()"
      and st' = "snd (main_loop (\<lambda>a. Inr (arg_legislation_id a))
         (\<lambda>(s::unit) p. (Inr [\<lparr> block_type = ''text'', block_text = p \<rparr>], s))
         (map (\<lambda>i. ((''duty'', i),
                 [\<lparr> legislation_term = Some ''duty'', legislation_id = Some i, section_text = None,
                    url = None, para_id = None, paragraphs = None, case_term = None \<rparr>]))
            [''a'', ''b'', ''c'', ''d'', ''e'', ''f'', ''g'', ''h'', ''i'', ''j''])
         (initial_run ()))"
      and prompt_txt = None and read_csv = "\<lambda>enc. Inl FileNotFoundError"
      and final = "initial_run ()"]
  by (simp add: initial_run_def build_prompt_args_def main_step_def process_group_def
      call_claude_sonnet_def response_text_def strip_def is_space_def
      definition_or_placeholder_def intermediate_file_def str_nat.simps digit_char_def Let_def)

section \<open>The input loader\<close>

text \<open>
  Claim C9.  The loader reads the file with UTF-8 first.  When that read raises
  \<^verbatim>\<open>UnicodeDecodeError\<close> it reads once more, with Latin-1, and the result of that
  second read is the result of the loader; otherwise there is one read only and its
  result, table or exception, is the result.  So a missing file fails at the first
  read without a retry, and a failure of both reads is the failure of the second.  A
  failed load ends \<^verbatim>\<open>main\<close> with that exception before any group is processed: no
  record, no file, no call of the remote service.
\<close>

theorem load_csv_fallback:
  "load_csv read_csv =
     (if read_csv UTF8 = Inl UnicodeDecodeError then ([UTF8, Latin1], read_csv Latin1)
      else ([UTF8], read_csv UTF8))
   \<and> (read_csv UTF8 = Inl FileNotFoundError
      \<longrightarrow> load_csv read_csv = ([UTF8], Inl FileNotFoundError))
   \<and> (read_csv UTF8 = Inl UnicodeDecodeError \<and> read_csv Latin1 = Inl e
      \<longrightarrow> load_csv read_csv = ([UTF8, Latin1], Inl e))
   \<and> (snd (load_csv read_csv) = Inl e
      \<longrightarrow> main (Some prompt_template) read_csv create s
          = (Inl e, \<lparr> results = [], processed = 0, files = [], service = s \<rparr>))"
proof (intro conjI impI)
  show "load_csv read_csv =
     (if read_csv UTF8 = Inl UnicodeDecodeError then ([UTF8, Latin1], read_csv Latin1)
      else ([UTF8], read_csv UTF8))"
    by (simp add: load_csv_def split: sum.splits error.splits)
  show "load_csv read_csv = ([UTF8], Inl FileNotFoundError)"
    if "read_csv UTF8 = Inl FileNotFoundError"
    using that by (simp add: load_csv_def)
  show "load_csv read_csv = ([UTF8, Latin1], Inl e)"
    if "read_csv UTF8 = Inl UnicodeDecodeError \<and> read_csv Latin1 = Inl e"
    using that by (simp add: load_csv_def)
  show "main (Some prompt_template) read_csv create s
          = (Inl e, \<lparr> results = [], processed = 0, files = [], service = s \<rparr>)"
    if "snd (load_csv read_csv) = Inl e"
    using that by (simp add: main_def initial_run_def)
qed

theorem load_csv_fallback_witness:
  "load_csv (\<lambda>enc. case enc of
       UTF8 \<Rightarrow> Inl UnicodeDecodeError
     | Latin1 \<Rightarrow> Inr [\<lparr> legislation_term = Some ''duty'', legislation_id = Some ''s1'',
                        section_text = None, url = None, para_id = None, paragraphs = None,
                        case_term = None \<rparr>])
   = ([UTF8, Latin1],
      Inr [\<lparr> legislation_term = Some ''duty'', legislation_id = Some ''s1'',
             section_text = None, url = None, para_id = None, paragraphs = None,
             case_term = None \<rparr>])
   \<and> load_csv (\<lambda>enc. case enc of
       UTF8 \<Rightarrow> Inl UnicodeDecodeError | Latin1 \<Rightarrow> Inl (OtherError ''ParserError''))
     = ([UTF8, Latin1], Inl (OtherError ''ParserError''))
   \<and> main (Some (\<lambda>a. Inr (arg_legislation_term a))) (\<lambda>enc. Inl FileNotFoundError)
       (\<lambda>(s::unit) p. (Inr [], s)) ()
     = (Inl FileNotFoundError, \<lparr> results = [], processed = 0, files = [], service = () \<rparr>)"
  using
    load_csv_fallback [where
      read_csv = "\<lambda>enc. case enc of
         UTF8 \<Rightarrow> Inl UnicodeDecodeError
       | Latin1 \<Rightarrow> Inr [\<lparr> legislation_term = Some ''duty'', legislation_id = Some ''s1'',
                          section_text = None, url = None, para_id = None, paragraphs = None,
                          case_term = None \<rparr>]"]
    load_csv_fallback [where
      read_csv = "\<lambda>enc. case enc of
         UTF8 \<Rightarrow> Inl UnicodeDecodeError | Latin1 \<Rightarrow> Inl (OtherError ''ParserError'')"
      and e = "OtherError ''ParserError''"]
    load_csv_fallback [where
      read_csv = "\<lambda>enc. Inl FileNotFoundError" and e = FileNotFoundError
      and prompt_template = "\<lambda>a. Inr (arg_legislation_term a)"
      and create = "\<lambda>(s::unit) p. (Inr [], s)" and s = "()"]
  by (simp add: load_csv_def main_def initial_run_def)

section \<open>The grouper\<close>

lemma set_map_filter: "set (List.map_filter f xs) = {k. \<exists>x\<in>set xs. f x = Some k}"
  by (auto simp: List.map_filter_def image_iff) force

lemma set_group_keys: "set (group_keys df) = {k. \<exists>r\<in>set df. row_key r = Some k}"
  by (simp add: group_keys_def set_map_filter)

lemma distinct_group_keys: "distinct (group_keys df)"
  by (simp add: group_keys_def)

lemma sorted_group_keys: "sorted (group_keys df)"
  by (simp add: group_keys_def)

lemma group_keys_sorted_list: "group_keys df = sorted_list_of_set {k. \<exists>r\<in>set df. row_key r = Some k}"
  unfolding group_keys_def set_map_filter [symmetric]
  by (simp add: sorted_list_of_set_sort_remdups)





lemma hd_sorted_Min:
  fixes ys :: "'a::linorder list"
  assumes "sorted ys" "ys \<noteq> []"
  shows "hd ys = Min (set ys)"
proof -
  obtain y rest where ys: "ys = y # rest"
    using assms(2) by (cases ys) auto
  have "Min (set ys) = y"
    using assms(1) unfolding ys by (intro Min_eqI) auto
  then show ?thesis by (simp add: ys)
qed

lemma group_keys_strictly_sorted: "sorted_wrt (<) (group_keys df)"
  using sorted_group_keys [of df] distinct_group_keys [of df]
  by (simp add: strict_sorted_iff)




lemma group_keys_lexicographic:
  "sorted_wrt (\<lambda>k k'. fst k < fst k' \<or> fst k = fst k' \<and> snd k < snd k') (group_keys df)"
proof -
  have "(\<lambda>k k' :: 'a \<times> 'b. k < k') = (\<lambda>k k'. fst k < fst k' \<or> fst k = fst k' \<and> snd k < snd k')"
    by (intro ext) (rule less_prod_def')
  with group_keys_strictly_sorted [of df] show ?thesis
    by simp
qed

lemma Min_key_least:
  fixes k0 :: "'a::linorder \<times> 'b::linorder"
  assumes "k0 = Min (set ks)" "k \<in> set ks"
  shows "fst k0 < fst k \<or> fst k0 = fst k \<and> snd k0 \<le> snd k"
proof -
  have "k0 \<le> k" using assms by simp
  then show ?thesis by (auto simp: less_eq_prod_def)
qed

text \<open>
  Claim C10.  The groups come in strictly ascending order of their keys.  Keys compare
  as pairs, lexicographically: by the term, and among equal terms by the legislation
  identifier, each compared as pandas holds the column (numbers by value, so 9 before
  10; strings by code point, so the text 10 before the text 9).  The keys of the group
  list are the sorted list of the keys present in the table, whatever the order of the
  rows.  So under the limit to the first group, a run that read a table with a keyed
  row, and whose template formats without raising, completes with one record, that of
  the least key of the table: a key of some row that is below or equal to the key of
  every keyed row.
\<close>

theorem groups_in_key_order:
  "sorted_wrt (\<lambda>k k'. fst k < fst k' \<or> fst k = fst k' \<and> snd k < snd k') (map fst (groupby df))
   \<and> sorted_wrt (<) (map fst (groupby df))
   \<and> map fst (groupby df) = sorted_list_of_set {k. \<exists>r\<in>set df. row_key r = Some k}
   \<and> (set df = set df' \<longrightarrow> map fst (groupby df) = map fst (groupby df'))
   \<and> ((\<forall>a. \<exists>p. prompt_template a = Inr p)
      \<and> snd (load_csv read_csv) = Inr df
      \<and> (\<exists>r\<in>set df. row_key r \<noteq> None)
      \<and> main (Some prompt_template) read_csv create s = (out, final)
    \<longrightarrow> out = Inr ()
      \<and> map (\<lambda>r. (res_legislation_term r, res_legislation_id r)) (results final)
          = [Min {k. \<exists>r\<in>set df. row_key r = Some k}]
      \<and> (\<exists>r\<in>set df. row_key r = Some (Min {k. \<exists>r\<in>set df. row_key r = Some k}))
      \<and> (\<forall>r\<in>set df. \<forall>k. row_key r = Some k \<longrightarrow>
            fst (Min {k. \<exists>r\<in>set df. row_key r = Some k}) < fst k
            \<or> fst (Min {k. \<exists>r\<in>set df. row_key r = Some k}) = fst k
              \<and> snd (Min {k. \<exists>r\<in>set df. row_key r = Some k}) \<le> snd k))"
proof (intro conjI impI)
  show "sorted_wrt (\<lambda>k k'. fst k < fst k' \<or> fst k = fst k' \<and> snd k < snd k') (map fst (groupby df))"
    by (simp only: map_fst_groupby group_keys_lexicographic)
  show "sorted_wrt (<) (map fst (groupby df))"
    by (simp only: map_fst_groupby group_keys_strictly_sorted)
  show "map fst (groupby df) = sorted_list_of_set {k. \<exists>r\<in>set df. row_key r = Some k}"
    by (simp only: map_fst_groupby group_keys_sorted_list)
  show "map fst (groupby df) = map fst (groupby df')" if "set df = set df'"
    using that by (simp only: map_fst_groupby group_keys_sorted_list)
next
  assume a: "(\<forall>a. \<exists>p. prompt_template a = Inr p)
      \<and> snd (load_csv read_csv) = Inr df
      \<and> (\<exists>r\<in>set df. row_key r \<noteq> None)
      \<and> main (Some prompt_template) read_csv create s = (out, final)"
  then have total: "\<forall>a. \<exists>p. prompt_template a = Inr p" by blast
  have keys: "{k. \<exists>r\<in>set df. row_key r = Some k} = set (group_keys df)"
    by (simp add: set_group_keys)
  from a have "set (group_keys df) \<noteq> {}"
    by (auto simp: set_group_keys)
  then have ne: "group_keys df \<noteq> []" by auto
  then obtain g gs where g: "groupby df = g # gs"
    by (cases "groupby df") (auto simp: groupby_def)
  have "fst g = hd (group_keys df)"
    using g map_fst_groupby [of df] by (cases "group_keys df") auto
  also have "\<dots> = Min {k. \<exists>r\<in>set df. row_key r = Some k}"
    using hd_sorted_Min [OF sorted_group_keys ne] by (simp add: set_group_keys)
  finally have key: "fst g = Min {k. \<exists>r\<in>set df. row_key r = Some k}" .
  obtain st' where loop:
    "main_loop prompt_template create (take 1 (groupby df)) (initial_run s) = (Inr (), st')"
    using main_loop_total [OF total] by blast
  from main_loop_results [OF loop] obtain new where new:
    "results st' = new"
    "map (\<lambda>r. (res_legislation_term r, res_legislation_id r)) new
       = map fst (take (length new) (take 1 (groupby df)))"
    "length new = length (take 1 (groupby df))"
    unfolding initial_run_def by auto
  have "take (length new) (take 1 (groupby df)) = [g]"
    unfolding new(3) by (simp add: g)
  with new(1,2) have res: "results st' \<noteq> []"
    "map (\<lambda>r. (res_legislation_term r, res_legislation_id r)) (results st') = [fst g]"
    by auto
  from a loop res(1) have "out = Inr ()"
    and "final = st' \<lparr> files := files st' @ [(output_file, results st')] \<rparr>"
    by (auto simp: main_def Let_def)
  with res(2) key show "out = Inr ()"
    and "map (\<lambda>r. (res_legislation_term r, res_legislation_id r)) (results final)
          = [Min {k. \<exists>r\<in>set df. row_key r = Some k}]"
    by simp_all
  have "Min (set (group_keys df)) \<in> set (group_keys df)"
    using ne by (intro Min_in) auto
  then show "\<exists>r\<in>set df. row_key r = Some (Min {k. \<exists>r\<in>set df. row_key r = Some k})"
    unfolding keys by (simp add: set_group_keys)
  show "\<forall>r\<in>set df. \<forall>k. row_key r = Some k \<longrightarrow>
            fst (Min {k. \<exists>r\<in>set df. row_key r = Some k}) < fst k
            \<or> fst (Min {k. \<exists>r\<in>set df. row_key r = Some k}) = fst k
              \<and> snd (Min {k. \<exists>r\<in>set df. row_key r = Some k}) \<le> snd k"
  proof (intro ballI allI impI)
    fix r k assume "r \<in> set df" "row_key r = Some k"
    then have "k \<in> set (group_keys df)"
      by (auto simp: set_group_keys)
    then show "fst (Min {k. \<exists>r\<in>set df. row_key r = Some k}) < fst k
            \<or> fst (Min {k. \<exists>r\<in>set df. row_key r = Some k}) = fst k
              \<and> snd (Min {k. \<exists>r\<in>set df. row_key r = Some k}) \<le> snd k"
      unfolding keys by (intro Min_key_least) simp_all
  qed
qed

theorem groups_in_key_order_witness:
  "map fst (groupby
     [\<lparr> legislation_term = Some ''tort'', legislation_id = Some (2::int), section_text = None,
        url = None, para_id = None, paragraphs = None, case_term = None \<rparr>,
      \<lparr> legislation_term = Some ''duty'', legislation_id = Some 10, section_text = None,
        url = None, para_id = None, paragraphs = None, case_term = None \<rparr>,
      \<lparr> legislation_term = Some ''duty'', legislation_id = Some 9, section_text = None,
        url = None, para_id = None, paragraphs = None, case_term = None \<rparr>])
   = [(''duty'', 9), (''duty'', 10), (''tort'', 2)]
   \<and> main (Some (\<lambda>a. Inr (arg_legislation_term a)))
     (\<lambda>enc. Inr
       [\<lparr> legislation_term = Some ''tort'', legislation_id = Some (2::int), section_text = None,
          url = None, para_id = None, paragraphs = None, case_term = None \<rparr>,
        \<lparr> legislation_term = Some ''duty'', legislation_id = Some 10, section_text = None,
          url = None, para_id = None, paragraphs = None, case_term = None \<rparr>,
        \<lparr> legislation_term = Some ''duty'', legislation_id = Some 9, section_text = None,
          url = None, para_id = None, paragraphs = None, case_term = None \<rparr>])
     (\<lambda>(s::unit) p. (Inr [\<lparr> block_type = ''text'', block_text = ''meaning of '' @ p \<rparr>], s))
     ()
   = (Inr (),
      \<lparr> results =
          [\<lparr> res_legislation_id = 9, res_legislation_term = ''duty'',
             legislation_term_definition = ''meaning of duty'' \<rparr>],
        processed = 1,
        files =
          [(''legislation_term_definitions.csv'',
            [\<lparr> res_legislation_id = 9, res_legislation_term = ''duty'',
               legislation_term_definition = ''meaning of duty'' \<rparr>])],
        service = () \<rparr>)
   \<and> Min {k. \<exists>r\<in>set
       [\<lparr> legislation_term = Some ''tort'', legislation_id = Some (2::int), section_text = None,
          url = None, para_id = None, paragraphs = None, case_term = None \<rparr>,
        \<lparr> legislation_term = Some ''duty'', legislation_id = Some 10, section_text = None,
          url = None, para_id = None, paragraphs = None, case_term = None \<rparr>,
        \<lparr> legislation_term = Some ''duty'', legislation_id = Some 9, section_text = None,
          url = None, para_id = None, paragraphs = None, case_term = None \<rparr>].
       row_key r = Some k} = (''duty'', 9)
   \<and> map fst (groupby
     [\<lparr> legislation_term = Some ''duty'', legislation_id = Some ''9'', section_text = None,
        url = None, para_id = None, paragraphs = None, case_term = None \<rparr>,
      \<lparr> legislation_term = Some ''duty'', legislation_id = Some ''10'', section_text = None,
        url = None, para_id = None, paragraphs = None, case_term = None \<rparr>,
      \<lparr> legislation_term = Some ''duty'', legislation_id = Some ''s1'', section_text = None,
        url = None, para_id = None, paragraphs = None, case_term = None \<rparr>])
   = [(''duty'', ''10''), (''duty'', ''9''), (''duty'', ''s1'')]"
  (is "map fst (groupby ?df) = ?keys \<and> main (Some ?tmpl) ?read ?create () = (Inr (), ?final)
       \<and> ?least \<and> ?strs")
proof -
  have keys: "map fst (groupby ?df) = ?keys"
    by (simp add: groupby_def group_keys_def List.map_filter_def row_key_def)
  have strs: ?strs
    by (simp add: groupby_def group_keys_def List.map_filter_def row_key_def)
  have run: "main (Some ?tmpl) ?read ?create () = (Inr (), ?final)"
    by (simp add: main_def initial_run_def output_file_def build_prompt_args_def load_csv_def
        groupby_def group_keys_def List.map_filter_def row_key_def main_step_def process_group_def
        call_claude_sonnet_def response_text_def strip_def is_space_def
        definition_or_placeholder_def Let_def)
  have pre: "(\<forall>a. \<exists>p. ?tmpl a = Inr p) \<and> snd (load_csv ?read) = Inr ?df
      \<and> (\<exists>r\<in>set ?df. row_key r \<noteq> None)"
    by (simp add: load_csv_def row_key_def)
  from groups_in_key_order [of ?df "[]" ?tmpl ?read ?create "()" "Inr ()" ?final] pre run
  have "map (\<lambda>r. (res_legislation_term r, res_legislation_id r)) (results ?final)
      = [Min {k. \<exists>r\<in>set ?df. row_key r = Some k}]"
    by blast
  then have ?least by simp
  with keys run strs show ?thesis by blast
qed

end
